theory Spec2Isabelle
  imports Complex_Main
begin

section \<open>Arrays and errors\<close>

text \<open>
  A two-dimensional numpy array is a list of rows.  Elementwise numpy expressions are
  written per entry: \<open>map2d\<close> applies a scalar function to every entry and \<open>zip2d\<close>
  combines two arrays of the same shape entry by entry.  Floating-point numbers are
  idealised as reals (complex numbers for the envelope); rounding, overflow and the
  IEEE special values are outside this part of the model.
\<close>

type_synonym 'a array2 = "'a list list"

definition shape :: "'a array2 \<Rightarrow> nat list" where
  "shape a = map length a"

definition map2d :: "('a \<Rightarrow> 'b) \<Rightarrow> 'a array2 \<Rightarrow> 'b array2" where
  "map2d f a = map (map f) a"

definition zip2d :: "('a \<Rightarrow> 'b \<Rightarrow> 'c) \<Rightarrow> 'a array2 \<Rightarrow> 'b array2 \<Rightarrow> 'c array2" where
  "zip2d f a b = map2 (map2 f) a b"

definition in_range2 :: "'a array2 \<Rightarrow> nat \<Rightarrow> nat \<Rightarrow> bool" where
  "in_range2 a i j \<longleftrightarrow> i < length a \<and> j < length (a ! i)"

definition set2 :: "'a array2 \<Rightarrow> nat \<Rightarrow> nat \<Rightarrow> 'a \<Rightarrow> 'a array2" where
  "set2 a i j v = a[i := (a ! i)[j := v]]"

text \<open>The exceptions the modelled code can raise, under their Python names.\<close>

datatype error = ValueError | IndexError | SystemExit int

section \<open>Ionization rates (aiurpy/core/ionization.py)\<close>

subsection \<open>The series sum\<close>

text \<open>
  \<open>phi_integral\<close>: the parameter \<open>quad\<close> stands for scipy's numerical quadrature
  \<open>quad(integrand, 0, upper_l)[0]\<close> of \<open>exp(y\<^sup>2)\<close> over \<open>[0, upper_l]\<close>.
\<close>

definition phi_integral :: "(real \<Rightarrow> real) \<Rightarrow> real \<Rightarrow> real" where
  "phi_integral quad upper_l =
     (if upper_l \<le> 0 then 0 else exp (- (upper_l\<^sup>2)) * quad upper_l)"

definition max_idx :: int where
  "max_idx = 200"

text \<open>The term the loop body adds at summation index \<open>idx\<close>.\<close>

definition sum_term :: "(real \<Rightarrow> real) \<Rightarrow> real \<Rightarrow> real \<Rightarrow> real \<Rightarrow> int \<Rightarrow> real" where
  "sum_term quad alpha_s beta_s nu_thr idx =
     exp (- alpha_s * (of_int idx - nu_thr))
       * phi_integral quad (sqrt (beta_s * (of_int idx - nu_thr)))"

text \<open>
  The \<open>while True\<close> loop of \<open>compute_sum\<close>: add the term, leave when it is below
  \<open>tol * sum_value\<close>, otherwise advance the index and leave when it passes
  \<open>idx_min + max_idx\<close>.
\<close>

function sum_loop ::
  "(real \<Rightarrow> real) \<Rightarrow> real \<Rightarrow> real \<Rightarrow> real \<Rightarrow> real \<Rightarrow> int \<Rightarrow> int \<Rightarrow> real \<Rightarrow> real" where
  "sum_loop quad alpha_s beta_s nu_thr tol idx_min idx sum_value =
     (let t = sum_term quad alpha_s beta_s nu_thr idx;
          s = sum_value + t
      in if t < tol * s then s
         else if idx + 1 > idx_min + max_idx then s
         else sum_loop quad alpha_s beta_s nu_thr tol idx_min (idx + 1) s)"
  by pat_completeness auto
termination
  by (relation "measure (\<lambda>(quad, alpha_s, beta_s, nu_thr, tol, idx_min, idx, sum_value).
        nat (idx_min + max_idx + 1 - idx))") auto

definition compute_sum :: "(real \<Rightarrow> real) \<Rightarrow> real \<Rightarrow> real \<Rightarrow> real \<Rightarrow> real \<Rightarrow> real \<Rightarrow> real" where
  "compute_sum quad alpha_s beta_s idx_ppt_s coef_nu tol =
     (let nu_thr = coef_nu * idx_ppt_s;
          idx_min = \<lceil>nu_thr\<rceil>
      in sum_loop quad alpha_s beta_s nu_thr tol idx_min idx_min 0)"

text \<open>
  The same loop, recording the running partial sum after every evaluated term (in
  evaluation order).  It is used to speak about the iterations of \<open>compute_sum\<close>.
\<close>

function sum_trace ::
  "(real \<Rightarrow> real) \<Rightarrow> real \<Rightarrow> real \<Rightarrow> real \<Rightarrow> real \<Rightarrow> int \<Rightarrow> int \<Rightarrow> real \<Rightarrow> real list" where
  "sum_trace quad alpha_s beta_s nu_thr tol idx_min idx sum_value =
     (let t = sum_term quad alpha_s beta_s nu_thr idx;
          s = sum_value + t
      in if t < tol * s then [s]
         else if idx + 1 > idx_min + max_idx then [s]
         else s # sum_trace quad alpha_s beta_s nu_thr tol idx_min (idx + 1) s)"
  by pat_completeness auto
termination
  by (relation "measure (\<lambda>(quad, alpha_s, beta_s, nu_thr, tol, idx_min, idx, sum_value).
        nat (idx_min + max_idx + 1 - idx))") auto

declare sum_loop.simps [simp del] sum_trace.simps [simp del]

subsection \<open>The gamma-dependent functions\<close>

definition compute_a_gamma :: "real \<Rightarrow> real \<Rightarrow> real" where
  "compute_a_gamma asinh beta = 2 * asinh - beta"

definition compute_b_gamma :: "real \<Rightarrow> real" where
  "compute_b_gamma gamma = 2 * gamma / sqrt (1 + gamma\<^sup>2)"

definition compute_g_gamma :: "real \<Rightarrow> real \<Rightarrow> real \<Rightarrow> real \<Rightarrow> real" where
  "compute_g_gamma gamma asinh idx beta = (1.5 / gamma) * (idx * asinh - 1 / beta)"

definition compute_asinh_gamma :: "real \<Rightarrow> real" where
  "compute_asinh_gamma gamma = arsinh gamma"

definition compute_idx_gamma :: "real \<Rightarrow> real" where
  "compute_idx_gamma gamma = 1 + 0.5 / gamma\<^sup>2"

subsection \<open>compute_ionization\<close>

text \<open>
  The per-entry values of the arrays the "ppt" branch builds from \<open>env_mod\<close>; \<open>e\<close> is
  one entry of \<open>env_mod\<close>.  (Division by an entry that is exactly zero gives
  \<open>inf\<close>/\<open>nan\<close> in numpy and \<open>0\<close> in HOL; no statement below depends on such an entry.)
\<close>

definition gamma_ppt :: "real \<Rightarrow> real \<Rightarrow> real" where
  "gamma_ppt coef_ga e = coef_ga / e"

definition asinh_ppt :: "real \<Rightarrow> real \<Rightarrow> real" where
  "asinh_ppt coef_ga e = compute_asinh_gamma (gamma_ppt coef_ga e)"

definition idx_ppt :: "real \<Rightarrow> real \<Rightarrow> real" where
  "idx_ppt coef_ga e = compute_idx_gamma (gamma_ppt coef_ga e)"

definition beta_ppt :: "real \<Rightarrow> real \<Rightarrow> real" where
  "beta_ppt coef_ga e = compute_b_gamma (gamma_ppt coef_ga e)"

definition alpha_ppt :: "real \<Rightarrow> real \<Rightarrow> real" where
  "alpha_ppt coef_ga e = compute_a_gamma (asinh_ppt coef_ga e) (beta_ppt coef_ga e)"

definition gfunc_ppt :: "real \<Rightarrow> real \<Rightarrow> real" where
  "gfunc_ppt coef_ga e =
     compute_g_gamma (gamma_ppt coef_ga e) (asinh_ppt coef_ga e)
       (idx_ppt coef_ga e) (beta_ppt coef_ga e)"

definition ns_term :: "real \<Rightarrow> real \<Rightarrow> real \<Rightarrow> real \<Rightarrow> real" where
  "ns_term coef_f0 coef_ns coef_ga e =
     (2 * coef_f0 / (e * sqrt (1 + (gamma_ppt coef_ga e)\<^sup>2))) powr (2 * coef_ns - 1.5)"

definition g_term :: "real \<Rightarrow> real \<Rightarrow> real \<Rightarrow> real" where
  "g_term coef_f0 coef_ga e = exp (- 2 * coef_f0 * gfunc_ppt coef_ga e / (3 * e))"

definition g_term_2 :: "real \<Rightarrow> real \<Rightarrow> real" where
  "g_term_2 coef_ga e = (0.5 * beta_ppt coef_ga e)\<^sup>2"

text \<open>The threshold below which a point is skipped.\<close>

definition low_field :: real where
  "low_field = 1 / 10 ^ 12"

text \<open>
  The body of the double loop at the point \<open>(i, j)\<close>.  The result is the exception raised
  (if any) and the summation array as the body leaves it.  The arrays derived from
  \<open>env_mod\<close> have its shape, so the first read decides whether they are in range.
\<close>

definition ppt_point ::
  "(real \<Rightarrow> real) \<Rightarrow> real array2 \<Rightarrow> real \<Rightarrow> real \<Rightarrow> real \<Rightarrow> nat \<Rightarrow> nat \<Rightarrow> real array2
     \<Rightarrow> error option \<times> real array2" where
  "ppt_point quad env_mod coef_ga coef_nu tol i j ion_sum =
     (if \<not> in_range2 env_mod i j then (Some IndexError, ion_sum)
      else if env_mod ! i ! j < low_field then (None, ion_sum)
      else
        let alpha_ij = alpha_ppt coef_ga (env_mod ! i ! j);
            beta_ij = beta_ppt coef_ga (env_mod ! i ! j);
            gamma_ij = gamma_ppt coef_ga (env_mod ! i ! j);
            v = compute_sum quad alpha_ij beta_ij gamma_ij coef_nu tol
        in if \<not> in_range2 ion_sum i j then (Some IndexError, ion_sum)
           else (None, set2 ion_sum i j v))"

text \<open>\<open>for j in range(n_t)\<close> and \<open>for i in range(n_r)\<close>; an exception ends both loops.\<close>

fun ppt_cols ::
  "(real \<Rightarrow> real) \<Rightarrow> real array2 \<Rightarrow> real \<Rightarrow> real \<Rightarrow> real \<Rightarrow> nat \<Rightarrow> nat list \<Rightarrow> real array2
     \<Rightarrow> error option \<times> real array2" where
  "ppt_cols quad env_mod coef_ga coef_nu tol i [] ion_sum = (None, ion_sum)"
| "ppt_cols quad env_mod coef_ga coef_nu tol i (j # js) ion_sum =
     (case ppt_point quad env_mod coef_ga coef_nu tol i j ion_sum of
        (Some e, s) \<Rightarrow> (Some e, s)
      | (None, s) \<Rightarrow> ppt_cols quad env_mod coef_ga coef_nu tol i js s)"

fun ppt_rows ::
  "(real \<Rightarrow> real) \<Rightarrow> real array2 \<Rightarrow> real \<Rightarrow> real \<Rightarrow> real \<Rightarrow> nat list \<Rightarrow> nat list \<Rightarrow> real array2
     \<Rightarrow> error option \<times> real array2" where
  "ppt_rows quad env_mod coef_ga coef_nu tol [] js ion_sum = (None, ion_sum)"
| "ppt_rows quad env_mod coef_ga coef_nu tol (i # is) js ion_sum =
     (case ppt_cols quad env_mod coef_ga coef_nu tol i js ion_sum of
        (Some e, s) \<Rightarrow> (Some e, s)
      | (None, s) \<Rightarrow> ppt_rows quad env_mod coef_ga coef_nu tol is js s)"

text \<open>
  \<open>dst[:] = src\<close> overwrites the contents of \<open>dst\<close>.  The arrays are documented to have
  one shape \<open>(M, N)\<close>; a different shape is reported as numpy's broadcast error
  (broadcasting of length-one axes is not modelled).
\<close>

definition assign_all :: "'a array2 \<Rightarrow> 'a array2 \<Rightarrow> error option \<times> 'a array2" where
  "assign_all dst src = (if shape dst = shape src then (None, src) else (Some ValueError, dst))"

text \<open>
  \<open>compute_ionization\<close> mutates \<open>ion_rate\<close> and \<open>ion_sum\<close> in place; the model returns the
  exception raised (if any) and both arrays as the call leaves them.  \<open>range\<close> of a negative
  number is empty.
\<close>

definition compute_ionization ::
  "(real \<Rightarrow> real) \<Rightarrow> complex array2 \<Rightarrow> real array2 \<Rightarrow> real array2 \<Rightarrow> int \<Rightarrow> int \<Rightarrow> int
     \<Rightarrow> real \<Rightarrow> real \<Rightarrow> real \<Rightarrow> real \<Rightarrow> real \<Rightarrow> real \<Rightarrow> string \<Rightarrow> real
     \<Rightarrow> error option \<times> real array2 \<times> real array2" where
  "compute_ionization quad env ion_rate ion_sum n_k n_r n_t
       coef_f0 coef_ns coef_ga coef_nu coef_ion coef_ofi ion_model tol =
     (let env_mod = map2d cmod env
      in if ion_model = ''mpi'' then
           (case assign_all ion_rate (map2d (\<lambda>e. coef_ofi * e powi (2 * n_k)) env_mod) of
              (err, rate) \<Rightarrow> (err, rate, ion_sum))
         else if ion_model = ''ppt'' then
           (case ppt_rows quad env_mod coef_ga coef_nu tol
                   [0..<nat n_r] [0..<nat n_t] ion_sum of
              (Some e, s) \<Rightarrow> (Some e, ion_rate, s)
            | (None, s) \<Rightarrow>
                if shape s = shape env_mod then
                  (case assign_all ion_rate
                          (zip2d (\<lambda>e v. coef_ion * ns_term coef_f0 coef_ns coef_ga e
                                          * g_term coef_f0 coef_ga e * g_term_2 coef_ga e * v)
                             env_mod s) of
                     (err, rate) \<Rightarrow> (err, rate, s))
                else (Some ValueError, ion_rate, s))
         else (Some ValueError, ion_rate, ion_sum))"




section \<open>The Crank-Nicolson diffraction operators (acherus/solvers/fss.py)\<close>

text \<open>
  \<open>dst[a:b] = src\<close> on a one-dimensional slice of length \<open>n\<close>: the slice receives \<open>src\<close> when
  the lengths agree, a length-one \<open>src\<close> is broadcast, anything else is numpy's
  \<open>ValueError\<close>.  The result is the new content of the slice.
\<close>

definition assign_slice :: "nat \<Rightarrow> 'a list \<Rightarrow> error + 'a list" where
  "assign_slice n src =
     (if length src = n then Inr src
      else if length src = 1 then Inr (replicate n (hd src))
      else Inl ValueError)"

text \<open>\<open>xs[-1] = v\<close> on a non-empty array.\<close>

definition set_last :: "'a list \<Rightarrow> 'a \<Rightarrow> 'a list" where
  "set_last xs v = xs[length xs - 1 := v]"

text \<open>
  The two representations \<open>compute_matrix\<close> returns: the \<open>(3, n_r)\<close> array handed to
  \<open>solve_banded\<close>, and the sparse array \<open>diags_array\<close> builds, kept as its size and its
  lower, main and upper diagonals.
\<close>

datatype operator =
    Band "complex array2"
  | Dia nat "complex list" "complex list" "complex list"

text \<open>
  scipy's \<open>diags_array([lower, main, upper], offsets=[-1, 0, 1])\<close> with the shape omitted:
  the size is the length of the first diagonal plus its offset; a diagonal longer than its
  place is cut, one of length one is broadcast, any other length is a \<open>ValueError\<close>.
\<close>

definition diags_array :: "complex list \<Rightarrow> complex list \<Rightarrow> complex list \<Rightarrow> error + operator" where
  "diags_array lower main upper =
     (let m = length lower + 1
      in case assign_slice (m - 1) (take (m - 1) lower) of
           Inl e \<Rightarrow> Inl e
         | Inr lo \<Rightarrow>
             (case assign_slice m (take m main) of
                Inl e \<Rightarrow> Inl e
              | Inr ma \<Rightarrow>
                  (case assign_slice (m - 1) (take (m - 1) upper) of
                     Inl e \<Rightarrow> Inl e
                   | Inr up \<Rightarrow> Inr (Dia m lo ma up))))"

text \<open>
  The boundary conditions both branches write: \<open>diag_main[0], diag_main[-1] = coef_main, v\<close>
  (an \<open>IndexError\<close> on an empty array) and \<open>diag_upper[0] = -2 * coef_d\<close>.
\<close>

definition set_boundary ::
  "complex list \<Rightarrow> complex list \<Rightarrow> complex \<Rightarrow> complex \<Rightarrow> complex
     \<Rightarrow> error + complex list \<times> complex list" where
  "set_boundary diag_main diag_upper coef_main coef_d v =
     (if diag_main = [] then Inl IndexError
      else Inr (set_last (diag_main[0 := coef_main]) v, diag_upper[0 := - 2 * coef_d]))"

text \<open>
  \<open>compute_matrix\<close>.  \<open>np.arange(1, n_r - 1)\<close> is the list \<open>[1..n_r - 2]\<close>; \<open>np.full\<close> of a
  negative length is a \<open>ValueError\<close>.  Any \<open>m_p\<close> other than "left" and "right" reaches
  \<open>diags_array\<close> without boundary conditions, as in the source.
\<close>

definition compute_matrix :: "int \<Rightarrow> string \<Rightarrow> complex \<Rightarrow> error + operator" where
  "compute_matrix n_r m_p coef_d =
     (let coef_main = 1 + 2 * coef_d;
          r_ind = [1..n_r - 2];
          diag_lower = map (\<lambda>i. - coef_d * (1 - 0.5 / of_int i)) r_ind
      in if n_r < 0 then Inl ValueError
         else
           let diag_main = replicate (nat n_r) coef_main;
               diag_upper = map (\<lambda>i. - coef_d * (1 + 0.5 / of_int i)) r_ind;
               diag_lower = diag_lower @ [0];
               diag_upper = 0 # diag_upper
           in if m_p = ''left'' then
                (case set_boundary diag_main diag_upper coef_main coef_d 1 of
                   Inl e \<Rightarrow> Inl e
                 | Inr (diag_main, diag_upper) \<Rightarrow>
                     (case assign_slice (nat n_r - 1) diag_upper of
                        Inl e \<Rightarrow> Inl e
                      | Inr row0 \<Rightarrow>
                          (case assign_slice (nat n_r) diag_main of
                             Inl e \<Rightarrow> Inl e
                           | Inr row1 \<Rightarrow>
                               (case assign_slice (nat n_r - 1) diag_lower of
                                  Inl e \<Rightarrow> Inl e
                                | Inr row2 \<Rightarrow> Inr (Band [0 # row0, row1, row2 @ [0]])))))
              else
                (case (if m_p = ''right''
                       then set_boundary diag_main diag_upper coef_main coef_d 0
                       else Inr (diag_main, diag_upper)) of
                   Inl e \<Rightarrow> Inl e
                 | Inr (diag_main, diag_upper) \<Rightarrow> diags_array diag_lower diag_main diag_upper))"

text \<open>
  The matrix entry at row \<open>i\<close> and column \<open>j\<close> that each representation stands for:
  \<open>solve_banded((1, 1), ab, b)\<close> reads \<open>a[i, j]\<close> from \<open>ab[1 + i - j, j]\<close>, and the
  \<open>k\<close>-th entry of a diagonal at offset \<open>d\<close> is \<open>a[k, k + d]\<close> (\<open>a[k - d, k]\<close> for a
  negative offset).
\<close>

fun entry :: "operator \<Rightarrow> nat \<Rightarrow> nat \<Rightarrow> complex" where
  "entry (Band ab) i j = (if i \<le> j + 1 \<and> j \<le> i + 1 then ab ! (1 + i - j) ! j else 0)"
| "entry (Dia m lower main upper) i j =
     (if j = i + 1 then upper ! i
      else if j = i then main ! i
      else if i = j + 1 then lower ! j
      else 0)"

section \<open>Validation of the solver state (aiurpy/results/routines.py, water_2d1_fcn_rk4.py)\<close>

text \<open>
  The validation is about the IEEE special values, so here an array entry is a float that
  is a finite real, an infinity or a NaN; a complex entry is a pair of floats, finite when
  both parts are (\<open>np.isfinite\<close>).
\<close>

datatype fval = Finite real | PosInf | NegInf | NaN

fun isfinite :: "fval \<Rightarrow> bool" where
  "isfinite (Finite x) = True"
| "isfinite PosInf = False"
| "isfinite NegInf = False"
| "isfinite NaN = False"

type_synonym cval = "fval \<times> fval"

fun isfinite_c :: "cval \<Rightarrow> bool" where
  "isfinite_c (re, im) = (isfinite re \<and> isfinite im)"

text \<open>\<open>np.any(~p(a))\<close> for an elementwise test \<open>p\<close>.\<close>

definition any_not :: "('a \<Rightarrow> bool) \<Rightarrow> 'a array2 \<Rightarrow> bool" where
  "any_not p a = list_ex (list_ex (\<lambda>x. \<not> p x)) a"

text \<open>
  The part of the solver object the validation reads (\<open>envelope\<close> and \<open>density\<close> in
  \<open>FCNSolver\<close>).
\<close>

record solver =
  envelope_rt :: "cval array2"
  density_rt :: "fval array2"


text \<open>
  \<open>FCNSolver.cheap_diagnostics\<close>: the copies into the diagnostic arrays leave envelope and
  density alone and are omitted; what remains is the check that ends the method.
\<close>

definition cheap_diagnostics :: "solver \<Rightarrow> error + unit" where
  "cheap_diagnostics s =
     (if any_not isfinite_c (envelope_rt s) then Inl (SystemExit 1)
      else if any_not isfinite (density_rt s) then Inl (SystemExit 1)
      else Inr ())"

text \<open>
  \<open>FCNSolver.propagate\<close>: \<open>dist_limit\<close> outer rounds of \<open>dist_limitin\<close> steps, each step
  \<open>solve_step\<close> followed by \<open>cheap_diagnostics\<close>.  \<open>solve_step\<close> is a parameter acting on
  the state.  The result is the exception raised (if any), the state reached, and the
  number of \<open>solve_step\<close> calls executed (the last argument counts them).
\<close>

fun inner_steps :: "(solver \<Rightarrow> solver) \<Rightarrow> nat \<Rightarrow> solver \<Rightarrow> nat \<Rightarrow> error option \<times> solver \<times> nat" where
  "inner_steps solve_step 0 s k = (None, s, k)"
| "inner_steps solve_step (Suc n) s k =
     (let s1 = solve_step s
      in case cheap_diagnostics s1 of
           Inl e \<Rightarrow> (Some e, s1, Suc k)
         | Inr u \<Rightarrow> inner_steps solve_step n s1 (Suc k))"



text \<open>The state holds a non-finite value.\<close>

definition non_finite :: "solver \<Rightarrow> bool" where
  "non_finite s \<longleftrightarrow>
     (\<exists>row \<in> set (envelope_rt s). \<exists>z \<in> set row. \<not> isfinite_c z)
   \<or> (\<exists>row \<in> set (density_rt s). \<exists>x \<in> set row. \<not> isfinite x)"

section \<open>One propagation step (acherus/solvers/fss.py, water_2d1_fcn_rk4.py)\<close>

subsection \<open>The calls of a step, in order\<close>











subsection \<open>The commit of the envelope buffers\<close>

text \<open>
  The two envelope buffers are numpy arrays that the solver's attributes refer to; a slice
  assignment writes into the array referred to.  The store maps a reference to the
  content of its array.  The buffers are created with one shape (\<open>np.empty_like\<close>), so a
  slice assignment replaces the whole content.
\<close>

type_synonym ref = nat

type_synonym 'a store = "ref \<Rightarrow> 'a"

record fss_buffers =
  envelope_ref :: ref
  envelope_next_ref :: ref

text \<open>
  \<open>self.envelope_rt[:], self.envelope_next_rt[:] = (self.envelope_next_rt, self.envelope_rt)\<close>:
  the right-hand side is a tuple of the two references; the targets are then assigned from
  left to right, each reading the store as it is at that moment.
\<close>

definition swap_commit :: "fss_buffers \<Rightarrow> 'a store \<Rightarrow> fss_buffers \<times> 'a store" where
  "swap_commit b h =
     (let rhs = (envelope_next_ref b, envelope_ref b);
          h1 = h(envelope_ref b := h (fst rhs));
          h2 = h1(envelope_next_ref b := h1 (snd rhs))
      in (b, h2))"

text \<open>\<open>np.copyto(self.envelope, self.next_envelope)\<close> in \<open>FCNSolver.solve_step\<close>.\<close>

definition copy_commit :: "fss_buffers \<Rightarrow> 'a store \<Rightarrow> fss_buffers \<times> 'a store" where
  "copy_commit b h = (b, h(envelope_ref b := h (envelope_next_ref b)))"

section \<open>The dispersion step (acherus/solvers/fss.py, water_2d1_fcn_rk4.py)\<close>

text \<open>
  scipy's \<open>fft\<close> and \<open>ifft\<close> along one row, in exact arithmetic: the discrete Fourier
  transform \<open>y[k] = \<Sum>n. x[n] exp(-2\<pi>i k n / N)\<close> and its inverse
  \<open>x[n] = (1 / N) \<Sum>k. y[k] exp(2\<pi>i k n / N)\<close>.
\<close>

definition fft_row :: "complex list \<Rightarrow> complex list" where
  "fft_row x =
     map (\<lambda>k. \<Sum>n<length x. x ! n * cis (- (2 * pi * real k * real n / real (length x))))
       [0..<length x]"

definition ifft_row :: "complex list \<Rightarrow> complex list" where
  "ifft_row y =
     map (\<lambda>n. (\<Sum>k<length y. y ! k * cis (2 * pi * real k * real n / real (length y)))
                / of_nat (length y))
       [0..<length y]"

text \<open>
  scipy's \<open>fftfreq(n, d)\<close>: the entries \<open>0, 1, \<dots>, (n - 1) div 2\<close> and then
  \<open>-(n div 2), \<dots>, -1\<close>, each divided by \<open>n * d\<close>.
\<close>

definition fftfreq :: "nat \<Rightarrow> real \<Rightarrow> real list" where
  "fftfreq n d =
     map (\<lambda>k. (if k < (n - 1) div 2 + 1 then real k else real k - real n) / (real n * d))
       [0..<n]"






section \<open>Properties\<close>

subsection \<open>Array helpers\<close>

lemma shape_map2d: "shape (map2d f a) = shape a"
  by (simp add: shape_def map2d_def comp_def)

lemma map2d_map2d: "map2d f (map2d g a) = map2d (f \<circ> g) a"
  by (simp add: map2d_def)

lemma cmod_double: "cmod (2 * z) = 2 * cmod z"
  by (simp add: norm_mult)

subsection \<open>The multiphoton model is a pure power law\<close>

text \<open>
  Claim C10.  With \<open>ion_model = "mpi"\<close> and a rate array of the envelope's shape,
  \<open>compute_ionization\<close> raises nothing, leaves the summation array alone and sets every
  rate entry to \<open>coef_ofi * |E|\<^sup>2\<^sup>K\<close> directly (no loop is involved); on the doubled
  envelope every rate entry is the original one times \<open>2\<^sup>2\<^sup>K\<close>.
\<close>

theorem mpi_rate_power_law:
  assumes "shape ion_rate = shape env"
  shows "compute_ionization quad env ion_rate ion_sum n_k n_r n_t
           coef_f0 coef_ns coef_ga coef_nu coef_ion coef_ofi ''mpi'' tol
         = (None, map2d (\<lambda>z. coef_ofi * cmod z powi (2 * n_k)) env, ion_sum)
       \<and> compute_ionization quad (map2d (\<lambda>z. 2 * z) env) ion_rate ion_sum n_k n_r n_t
           coef_f0 coef_ns coef_ga coef_nu coef_ion coef_ofi ''mpi'' tol
         = (None, map2d (\<lambda>z. (coef_ofi * cmod z powi (2 * n_k)) * 2 powi (2 * n_k)) env, ion_sum)"
  using assms
  by (simp add: compute_ionization_def assign_all_def shape_map2d map2d_map2d comp_def
      norm_mult power_int_mult_distrib mult_ac)

theorem mpi_rate_power_law_witness:
  "compute_ionization (\<lambda>x. x) [[1, \<i>]] [[0, 0]] [[0, 0]] 2 1 2 1 1 1 1 1 3 ''mpi'' (1/100)
         = (None, [[3, 3]], [[0, 0]])
       \<and> compute_ionization (\<lambda>x. x) [[2, 2 * \<i>]] [[0, 0]] [[0, 0]] 2 1 2 1 1 1 1 1 3 ''mpi'' (1/100)
         = (None, [[48, 48]], [[0, 0]])"
  using mpi_rate_power_law [of "[[0, 0]]" "[[1, \<i>]]" "\<lambda>x. x" "[[0, 0]]" 2 1 2 1 1 1 1 1 3 "1/100"]
  by (simp add: shape_def map2d_def norm_mult)

subsection \<open>Unrecognised model identifiers\<close>

text \<open>
  Claim C8.  For every model identifier other than \<open>"mpi"\<close> and \<open>"ppt"\<close>,
  \<open>compute_ionization\<close> raises the invalid-model exception (a \<open>ValueError\<close> in the code)
  and both pre-allocated arrays are exactly as they were passed in.
\<close>

theorem invalid_model_error:
  assumes "ion_model \<noteq> ''mpi''" and "ion_model \<noteq> ''ppt''"
  shows "compute_ionization quad env ion_rate ion_sum n_k n_r n_t
           coef_f0 coef_ns coef_ga coef_nu coef_ion coef_ofi ion_model tol
         = (Some ValueError, ion_rate, ion_sum)"
  using assms by (simp add: compute_ionization_def)

theorem invalid_model_error_witness:
  "''adk'' \<noteq> ''mpi'' \<and> ''adk'' \<noteq> ''ppt'' \<and>
   compute_ionization (\<lambda>x. x) [[1, 2]] [[5, 6]] [[7, 8]] 5 1 2 1 1 1 1 1 1 ''adk'' (1/100)
     = (Some ValueError, [[5, 6]], [[7, 8]])"
  using invalid_model_error [of "''adk''" "\<lambda>x. x" "[[1, 2]]" "[[5, 6]]" "[[7, 8]]" 5 1 2 1 1 1 1 1 1 "1/100"]
  by simp

subsection \<open>The series sum: iterations, monotonicity, stopping rule, cap\<close>












subsection \<open>The adiabatic model: which entries the low-field skip protects\<close>























subsection \<open>Entries of the diffraction operators\<close>

lemma replicate_update0: "(replicate n x)[0 := x] = replicate n x"
  by (cases n) simp_all

lemma left_form:
  assumes "3 \<le> n_r"
  shows "compute_matrix n_r ''left'' c
       = Inr (Band [0 # (- 2 * c) # map (\<lambda>i. - c * (1 + 0.5 / of_int i)) [1..n_r - 2],
                    (replicate (nat n_r) (1 + 2 * c))[nat n_r - 1 := 1],
                    map (\<lambda>i. - c * (1 - 0.5 / of_int i)) [1..n_r - 2] @ [0, 0]])"
proof -
  have len: "Suc (nat (n_r - 2)) = nat n_r - 1" using assms by simp
  show ?thesis
    using assms len
    by (simp add: compute_matrix_def Let_def set_boundary_def assign_slice_def set_last_def
        replicate_update0)
qed

lemma right_form:
  assumes "3 \<le> n_r"
  shows "compute_matrix n_r ''right'' c
       = Inr (Dia (nat n_r)
                (map (\<lambda>i. - c * (1 - 0.5 / of_int i)) [1..n_r - 2] @ [0])
                ((replicate (nat n_r) (1 + 2 * c))[nat n_r - 1 := 0])
                ((- 2 * c) # map (\<lambda>i. - c * (1 + 0.5 / of_int i)) [1..n_r - 2]))"
proof -
  have len: "Suc (nat (n_r - 2)) = nat n_r - 1" "Suc (Suc (nat (n_r - 2))) = nat n_r"
    using assms by simp_all
  show ?thesis
    using assms len
    by (simp add: compute_matrix_def Let_def set_boundary_def assign_slice_def set_last_def
        replicate_update0 diags_array_def)
qed

lemma nth_map_upto:
  assumes "k < nat (n - 2)"
  shows "map f [1..n - 2] ! k = f (1 + int k)"
proof -
  have "k < length [1..n - 2]" using assms by simp
  then have "map f [1..n - 2] ! k = f ([1..n - 2] ! k)" by (rule nth_map)
  moreover have "[1..n - 2] ! k = 1 + int k" using assms by (intro nth_upto) linarith
  ultimately show ?thesis by simp
qed


text \<open>
  Claim C2.  For every \<open>n_r \<ge> 3\<close> and every complex coefficient \<open>c\<close>, both operators
  are built without an exception and, as matrices: at each interior node
  \<open>1 \<le> i \<le> n_r - 2\<close> the lower off-diagonal is \<open>-c (1 - 0.5 / i)\<close>, the main diagonal
  \<open>1 + 2 c\<close> and the upper off-diagonal \<open>-c (1 + 0.5 / i)\<close>; at the axis node the upper
  off-diagonal is \<open>-2 c\<close>; at the outer node the left operator has main-diagonal entry \<open>1\<close>
  and the right operator \<open>0\<close>, each with a zero off-diagonal.
\<close>

theorem compute_matrix_entries:
  assumes "3 \<le> n_r"
  shows "\<exists>L R. compute_matrix n_r ''left'' c = Inr L \<and> compute_matrix n_r ''right'' c = Inr R
     \<and> (\<forall>i. 1 \<le> i \<and> i \<le> nat n_r - 2 \<longrightarrow>
            entry L i (i - 1) = - c * (1 - 0.5 / of_nat i)
          \<and> entry L i i = 1 + 2 * c
          \<and> entry L i (i + 1) = - c * (1 + 0.5 / of_nat i)
          \<and> entry R i (i - 1) = - c * (1 - 0.5 / of_nat i)
          \<and> entry R i i = 1 + 2 * c
          \<and> entry R i (i + 1) = - c * (1 + 0.5 / of_nat i))
     \<and> entry L 0 1 = - 2 * c \<and> entry R 0 1 = - 2 * c
     \<and> entry L (nat n_r - 1) (nat n_r - 1) = 1 \<and> entry L (nat n_r - 1) (nat n_r - 2) = 0
     \<and> entry R (nat n_r - 1) (nat n_r - 1) = 0 \<and> entry R (nat n_r - 1) (nat n_r - 2) = 0"
proof -
  let ?fu = "\<lambda>i. - c * (1 + 0.5 / of_int i)"
  let ?fl = "\<lambda>i. - c * (1 - 0.5 / of_int i)"
  let ?n = "nat n_r"
  let ?up = "(- 2 * c) # map ?fu [1..n_r - 2]"
  let ?lo = "map ?fl [1..n_r - 2] @ [0]"
  let ?mainL = "(replicate ?n (1 + 2 * c))[?n - 1 := 1]"
  let ?mainR = "(replicate ?n (1 + 2 * c))[?n - 1 := 0]"
  let ?L = "Band [0 # ?up, ?mainL, ?lo @ [0]]"
  let ?R = "Dia ?n ?lo ?mainR ?up"
  have L: "compute_matrix n_r ''left'' c = Inr ?L"
    using left_form [OF assms, of c] by simp
  have R: "compute_matrix n_r ''right'' c = Inr ?R"
    using right_form [OF assms, of c] by simp
  have len: "length (map ?fl [1..n_r - 2]) = ?n - 2" "length (map ?fu [1..n_r - 2]) = ?n - 2"
    using assms by simp_all
  have up: "?up ! i = ?fu (int i)" if "1 \<le> i" "i \<le> ?n - 2" for i
  proof -
    from that obtain k where k: "i = Suc k" by (cases i) simp_all
    with that have "k < nat (n_r - 2)" by simp
    then have "map ?fu [1..n_r - 2] ! k = ?fu (1 + int k)" by (rule nth_map_upto)
    with k show ?thesis by simp
  qed
  have lo: "?lo ! (i - 1) = ?fl (int i)" if "1 \<le> i" "i \<le> ?n - 2" for i
  proof -
    from that obtain k where k: "i = Suc k" by (cases i) simp_all
    with that have kl: "k < nat (n_r - 2)" by simp
    then have "map ?fl [1..n_r - 2] ! k = ?fl (1 + int k)" by (rule nth_map_upto)
    moreover have "?lo ! k = map ?fl [1..n_r - 2] ! k"
      using kl by (simp add: nth_append)
    ultimately show ?thesis using k by simp
  qed
  have lo_last: "?lo ! (?n - 2) = 0"
    using len(1) by (metis nth_append_length)
  have mainL: "?mainL ! i = 1 + 2 * c" "?mainR ! i = 1 + 2 * c" if "1 \<le> i" "i \<le> ?n - 2" for i
    using that assms by simp_all
  have main_last: "?mainL ! (?n - 1) = 1" "?mainR ! (?n - 1) = 0"
    using assms by simp_all
  have interior: "entry ?L i (i - 1) = - c * (1 - 0.5 / of_nat i)
          \<and> entry ?L i i = 1 + 2 * c
          \<and> entry ?L i (i + 1) = - c * (1 + 0.5 / of_nat i)
          \<and> entry ?R i (i - 1) = - c * (1 - 0.5 / of_nat i)
          \<and> entry ?R i i = 1 + 2 * c
          \<and> entry ?R i (i + 1) = - c * (1 + 0.5 / of_nat i)" if "1 \<le> i \<and> i \<le> ?n - 2" for i
  proof -
    from that have i: "1 \<le> i" "i \<le> ?n - 2" by simp_all
    then obtain k where k: "i = Suc k" by (cases i) simp_all
    have a: "(?lo @ [0]) ! (i - 1) = ?lo ! (i - 1)"
      using i len(1) by (simp add: nth_append)
    have "entry ?L i (i - 1) = (?lo @ [0]) ! (i - 1)" using k by simp
    then have e1: "entry ?L i (i - 1) = - c * (1 - 0.5 / of_nat i)"
      using a lo [OF i] by simp
    have "entry ?L i i = ?mainL ! i" by simp
    then have e2: "entry ?L i i = 1 + 2 * c" using mainL(1) [OF i] by simp
    have "entry ?L i (i + 1) = ?up ! i" by simp
    then have e3: "entry ?L i (i + 1) = - c * (1 + 0.5 / of_nat i)" using up [OF i] by simp
    have "entry ?R i (i - 1) = ?lo ! (i - 1)" using k by simp
    then have e4: "entry ?R i (i - 1) = - c * (1 - 0.5 / of_nat i)" using lo [OF i] by simp
    have "entry ?R i i = ?mainR ! i" by simp
    then have e5: "entry ?R i i = 1 + 2 * c" using mainL(2) [OF i] by simp
    have "entry ?R i (i + 1) = ?up ! i" by simp
    then have e6: "entry ?R i (i + 1) = - c * (1 + 0.5 / of_nat i)" using up [OF i] by simp
    from e1 e2 e3 e4 e5 e6 show ?thesis by blast
  qed
  have axis: "entry ?L 0 1 = - 2 * c" "entry ?R 0 1 = - 2 * c" by simp_all
  have s: "Suc (?n - 2) = ?n - 1" using assms by simp
  have "entry ?L (?n - 1) (?n - 2) = (?lo @ [0]) ! (?n - 2)"
    using s by (simp add: numeral_2_eq_2)
  also have "\<dots> = ?lo ! (?n - 2)" using len(1) by (simp add: nth_append)
  finally have oL: "entry ?L (?n - 1) (?n - 2) = 0" using lo_last by simp
  have ne: "?n - 2 \<noteq> ?n - 1" "?n - 2 \<noteq> Suc (?n - 1)" using assms by simp_all
  have "entry ?R (?n - 1) (?n - 2) = ?lo ! (?n - 2)"
    using s ne by simp
  then have oR: "entry ?R (?n - 1) (?n - 2) = 0" using lo_last by simp
  have mL: "entry ?L (?n - 1) (?n - 1) = 1" using main_last(1) by simp
  have mR: "entry ?R (?n - 1) (?n - 1) = 0" using main_last(2) by simp
  from L R interior axis oL oR mL mR show ?thesis by blast
qed


theorem compute_matrix_entries_witness:
  "\<exists>L R. compute_matrix 4 ''left'' \<i> = Inr L \<and> compute_matrix 4 ''right'' \<i> = Inr R
     \<and> entry L 1 0 = - \<i> * (1 / 2) \<and> entry L 1 1 = 1 + 2 * \<i> \<and> entry L 1 2 = - \<i> * (3 / 2)
     \<and> entry R 2 1 = - \<i> * (3 / 4) \<and> entry R 2 2 = 1 + 2 * \<i> \<and> entry R 2 3 = - \<i> * (5 / 4)
     \<and> entry L 0 1 = - 2 * \<i> \<and> entry R 0 1 = - 2 * \<i>
     \<and> entry L 3 3 = 1 \<and> entry L 3 2 = 0 \<and> entry R 3 3 = 0 \<and> entry R 3 2 = 0"
proof -
  from compute_matrix_entries [of 4 \<i>] obtain L R where
    LR: "compute_matrix 4 ''left'' \<i> = Inr L" "compute_matrix 4 ''right'' \<i> = Inr R"
    and int: "\<And>i. 1 \<le> i \<and> i \<le> 2 \<Longrightarrow>
            entry L i (i - 1) = - \<i> * (1 - 0.5 / of_nat i)
          \<and> entry L i i = 1 + 2 * \<i>
          \<and> entry L i (i + 1) = - \<i> * (1 + 0.5 / of_nat i)
          \<and> entry R i (i - 1) = - \<i> * (1 - 0.5 / of_nat i)
          \<and> entry R i i = 1 + 2 * \<i>
          \<and> entry R i (i + 1) = - \<i> * (1 + 0.5 / of_nat i)"
    and rest: "entry L 0 1 = - 2 * \<i>" "entry R 0 1 = - 2 * \<i>"
       "entry L 3 3 = 1" "entry L 3 2 = 0" "entry R 3 3 = 0" "entry R 3 2 = 0"
    by (auto simp add: numeral_3_eq_3 numeral_2_eq_2)
  from int [of 1] int [of 2] LR rest show ?thesis
    by (simp add: numeral_2_eq_2 numeral_3_eq_3)
qed

subsection \<open>Grids with fewer than three radial nodes\<close>

text \<open>
  The claim that every \<open>n_r < 3\<close> is rejected fails: with two radial nodes the left
  operator is returned.
\<close>

theorem small_grid_counterexample:
  "compute_matrix 2 ''left'' 1 = Inr (Band [[0, - 2], [3, 1], [0, 0]])"
  by (simp add: compute_matrix_def Let_def set_boundary_def assign_slice_def set_last_def
      numeral_2_eq_2)

text \<open>
  Claim C7, as the code has it.  \<open>compute_matrix\<close> has no check of the grid size: for
  \<open>n_r = 2\<close> and \<open>n_r = 1\<close> it returns an operator for either side; only \<open>n_r \<le> 0\<close>
  fails, with numpy's own \<open>IndexError\<close> (\<open>n_r = 0\<close>) or \<open>ValueError\<close> (\<open>n_r < 0\<close>).
\<close>

theorem small_grid_unchecked:
  assumes "n_r < 3"
  shows "(n_r = 2 \<longrightarrow>
            compute_matrix n_r ''left'' c = Inr (Band [[0, - 2 * c], [1 + 2 * c, 1], [0, 0]])
          \<and> compute_matrix n_r ''right'' c = Inr (Dia 2 [0] [1 + 2 * c, 0] [- 2 * c]))
       \<and> (n_r = 1 \<longrightarrow>
            compute_matrix n_r ''left'' c = Inr (Band [[0], [1], [0]])
          \<and> compute_matrix n_r ''right'' c = Inr (Dia 2 [0] [0, 0] [- 2 * c]))
       \<and> (n_r = 0 \<longrightarrow>
            compute_matrix n_r ''left'' c = Inl IndexError
          \<and> compute_matrix n_r ''right'' c = Inl IndexError)
       \<and> (n_r < 0 \<longrightarrow>
            compute_matrix n_r ''left'' c = Inl ValueError
          \<and> compute_matrix n_r ''right'' c = Inl ValueError)"
  by (simp add: compute_matrix_def Let_def set_boundary_def assign_slice_def set_last_def
      diags_array_def numeral_2_eq_2)

theorem small_grid_unchecked_witness:
  "compute_matrix 2 ''right'' \<i> = Inr (Dia 2 [0] [1 + 2 * \<i>, 0] [- 2 * \<i>])
   \<and> compute_matrix 1 ''left'' \<i> = Inr (Band [[0], [1], [0]])
   \<and> compute_matrix 0 ''left'' \<i> = Inl IndexError
   \<and> compute_matrix (- 1) ''right'' \<i> = Inl ValueError"
  using small_grid_unchecked [of 2 \<i>] small_grid_unchecked [of 1 \<i>]
    small_grid_unchecked [of 0 \<i>] small_grid_unchecked [of "- 1" \<i>]
  by simp

subsection \<open>Commit-time validation\<close>

lemma any_not_iff: "any_not p a \<longleftrightarrow> (\<exists>row \<in> set a. \<exists>x \<in> set row. \<not> p x)"
  by (simp add: any_not_def list_ex_iff)

lemma non_finite_iff:
  "non_finite s \<longleftrightarrow> any_not isfinite_c (envelope_rt s) \<or> any_not isfinite (density_rt s)"
  by (simp add: non_finite_def any_not_iff)

lemma cheap_diagnostics_iff:
  "cheap_diagnostics s = (if non_finite s then Inl (SystemExit 1) else Inr ())"
  by (simp add: cheap_diagnostics_def non_finite_iff)

lemma inner_steps_halt:
  "non_finite (solve_step s) \<Longrightarrow>
   inner_steps solve_step (Suc n) s k = (Some (SystemExit 1), solve_step s, Suc k)"
  by (simp add: cheap_diagnostics_iff Let_def)




subsection \<open>Order of the phases of a step\<close>





subsection \<open>The buffer commit\<close>

text \<open>
  With two distinct buffers the commit statement has the effect of copying the next buffer
  into the current one, which is what \<open>FCNSolver.solve_step\<close> does with \<open>np.copyto\<close>.
\<close>

lemma swap_commit_general:
  assumes "envelope_ref b \<noteq> envelope_next_ref b"
  shows "swap_commit b h = (b, h(envelope_ref b := h (envelope_next_ref b)))"
    and "swap_commit b h = copy_commit b h"
  using assms by (auto simp add: swap_commit_def copy_commit_def Let_def fun_eq_iff)

text \<open>
  Claim C9, evaluated on the code.  Before the commit the current buffer holds the
  envelope from before the step (\<open>[[1]]\<close>) and the next buffer the newly solved one
  (\<open>[[2]]\<close>).  After it the two references are unchanged and still distinct, but both
  buffers hold the new envelope: the second assignment reads the current buffer after the
  first has overwritten it, so the old envelope is not kept in the next buffer.
\<close>

theorem swap_commit_keeps_no_old_envelope:
  "snd (swap_commit \<lparr>envelope_ref = 0, envelope_next_ref = 1\<rparr>
          ((\<lambda>r. [[0 :: complex]])(0 := [[1]], 1 := [[2]]))) 0 = [[2]]
   \<and> snd (swap_commit \<lparr>envelope_ref = 0, envelope_next_ref = 1\<rparr>
          ((\<lambda>r. [[0 :: complex]])(0 := [[1]], 1 := [[2]]))) 1 = [[2]]
   \<and> fst (swap_commit \<lparr>envelope_ref = 0, envelope_next_ref = 1\<rparr>
          ((\<lambda>r. [[0 :: complex]])(0 := [[1]], 1 := [[2]])))
       = \<lparr>envelope_ref = 0, envelope_next_ref = 1\<rparr>"
  by (simp add: swap_commit_def Let_def)

subsection \<open>The transform pair and the dispersion step with a unit phase\<close>






lemma length_fft_row [simp]: "length (fft_row x) = length x"
  by (simp add: fft_row_def)

lemma length_ifft_row [simp]: "length (ifft_row x) = length x"
  by (simp add: ifft_row_def)







lemma length_fftfreq [simp]: "length (fftfreq n d) = n"
  by (simp add: fftfreq_def)











end
